theory Spec2Isabelle
  imports Main
begin

section \<open>JavaScript values\<close>

text \<open>
  The application (src/App.js, the version with the Settings modal) handles three kinds of
  data that it did not build itself: the text parts of the gateway's response envelope, the
  JSON that \<^verbatim>\<open>JSON.parse\<close> makes of such a text, and the invoice record it keeps of it.
  Parsed JSON is dynamically typed, so it is modelled as a datatype of JavaScript values.
  A string is a list of code units; the model covers the units below 256. The number type
  is a parameter: the operations of the engine on numbers, and \<^verbatim>\<open>JSON.parse\<close> and
  \<^verbatim>\<open>JSON.stringify\<close>, are not code of the application and are passed to every
  function that uses them, as a record of builtins.
\<close>

datatype 'n jsval =
    JUndefined
  | JNull
  | JBool bool
  | JNum 'n
  | JStr string
  | JArr "'n jsval list"
  | JObj "(string \<times> 'n jsval) list"

type_synonym 'n obj = "(string \<times> 'n jsval) list"

record 'n builtins =
  num_falsy :: "'n \<Rightarrow> bool"
  num_string :: "'n \<Rightarrow> string"
  num_toFixed2 :: "'n \<Rightarrow> string"
  num_zero :: 'n
  JSON_parse :: "string \<Rightarrow> string + 'n jsval"
  JSON_stringify :: "'n jsval \<Rightarrow> string"

text \<open>
  \<open>num_falsy\<close> holds of the numbers that count as false (both zeros and NaN),
  \<open>num_string\<close> is the conversion of a number to a string, \<open>num_toFixed2\<close> is
  \<^verbatim>\<open>toFixed(2)\<close>, \<open>num_zero\<close> is the literal \<^verbatim>\<open>0\<close>. \<open>JSON_parse\<close> returns the
  message of the SyntaxError on the left when the text is not JSON.
\<close>

fun js_truthy :: "'n builtins \<Rightarrow> 'n jsval \<Rightarrow> bool" where
  "js_truthy B JUndefined = False"
| "js_truthy B JNull = False"
| "js_truthy B (JBool b) = b"
| "js_truthy B (JNum n) = (\<not> num_falsy B n)"
| "js_truthy B (JStr s) = (s \<noteq> [])"
| "js_truthy B (JArr xs) = True"
| "js_truthy B (JObj kvs) = True"

text \<open>The operator \<^verbatim>\<open>a || b\<close> on values (neither operand of the source has an effect).\<close>

definition js_or :: "'n builtins \<Rightarrow> 'n jsval \<Rightarrow> 'n jsval \<Rightarrow> 'n jsval" where
  "js_or B a b = (if js_truthy B a then a else b)"

fun join_with :: "string \<Rightarrow> string list \<Rightarrow> string" where
  "join_with sep [] = []"
| "join_with sep [x] = x"
| "join_with sep (x # y # ys) = x @ sep @ join_with sep (y # ys)"

text \<open>
  The conversion to a string that a template literal and \<^verbatim>\<open>Array.prototype.join\<close>
  apply. In a joined array, \<^verbatim>\<open>undefined\<close> and \<^verbatim>\<open>null\<close> give the empty string.
\<close>

fun js_toString :: "'n builtins \<Rightarrow> 'n jsval \<Rightarrow> string"
  and element_texts :: "'n builtins \<Rightarrow> 'n jsval list \<Rightarrow> string list" where
  "js_toString B JUndefined = ''undefined''"
| "js_toString B JNull = ''null''"
| "js_toString B (JBool b) = (if b then ''true'' else ''false'')"
| "js_toString B (JNum n) = num_string B n"
| "js_toString B (JStr s) = s"
| "js_toString B (JArr xs) = join_with '','' (element_texts B xs)"
| "js_toString B (JObj kvs) = ''[object Object]''"
| "element_texts B [] = []"
| "element_texts B (JUndefined # xs) = [] # element_texts B xs"
| "element_texts B (JNull # xs) = [] # element_texts B xs"
| "element_texts B (x # xs) = js_toString B x # element_texts B xs"

text \<open>The decimal digits of a natural number (an HTTP status, an array index).\<close>

function show_nat :: "nat \<Rightarrow> string" where
  "show_nat n =
     (if n < 10 then [char_of (48 + n)]
      else show_nat (n div 10) @ [char_of (48 + n mod 10)])"
  by pat_completeness auto
termination
  by (relation "measure id") auto

declare show_nat.simps [simp del]

subsection \<open>Objects\<close>

text \<open>
  An object made by \<^verbatim>\<open>JSON.parse\<close> or by an object literal is the list of its own
  properties. \<open>get_prop\<close> reads a property by a name the program writes out
  (\<^verbatim>\<open>item.description\<close>): none of these names is inherited from a prototype, so the
  value is the own property or \<^verbatim>\<open>undefined\<close>. \<open>set_prop\<close> is the effect of
  \<^verbatim>\<open>{ ...o, k: v }\<close> and of \<^verbatim>\<open>o.k = v\<close> on the list: the value is replaced where the
  key exists and appended otherwise.
\<close>

definition get_prop :: "'n obj \<Rightarrow> string \<Rightarrow> 'n jsval" where
  "get_prop kvs k = (case map_of kvs k of Some v \<Rightarrow> v | None \<Rightarrow> JUndefined)"

fun set_prop :: "string \<Rightarrow> 'n jsval \<Rightarrow> 'n obj \<Rightarrow> 'n obj" where
  "set_prop k v [] = [(k, v)]"
| "set_prop k v ((k', v') # kvs) =
     (if k' = k then (k, v) # kvs else (k', v') # set_prop k v kvs)"

text \<open>The own enumerable properties that an object spread \<^verbatim>\<open>{ ...v }\<close> copies.\<close>

fun own_props :: "'n jsval \<Rightarrow> 'n obj" where
  "own_props (JObj kvs) = kvs"
| "own_props (JArr xs) = zip (map show_nat [0 ..< length xs]) xs"
| "own_props (JStr s) = zip (map show_nat [0 ..< length s]) (map (\<lambda>c. JStr [c]) s)"
| "own_props v = []"

section \<open>Errors\<close>

text \<open>
  One constructor for each \<^verbatim>\<open>throw\<close> of the source and for each kind of exception that
  the engine or the browser raises in the modelled code. The string of an engine error is
  the engine's message (V8's wording is used; no statement depends on it).
  \<open>ReaderError\<close> is the error event with which \<^verbatim>\<open>toBase64\<close> rejects: it has no
  \<^verbatim>\<open>message\<close> property.
\<close>

datatype js_error =
    ApiKeyMissing
  | RequestFailed nat string
  | RequestBlocked string string
  | InvalidStructure
  | TypeError string
  | SyntaxError string
  | HostError string
  | ReaderError

text \<open>What \<^verbatim>\<open>${err.message}\<close> puts into a template literal.\<close>

fun message :: "js_error \<Rightarrow> string" where
  "message ApiKeyMissing =
     ''API Key is missing. Please enter your Google AI API Key in Settings.''"
| "message (RequestFailed status errorBody) =
     ''API request failed with status '' @ show_nat status @ '': '' @ errorBody"
| "message (RequestBlocked reason msg) =
     ''Request was blocked. Reason: '' @ reason @ ''. '' @ msg"
| "message InvalidStructure = ''Invalid response structure from the API.''"
| "message (TypeError m) = m"
| "message (SyntaxError m) = m"
| "message (HostError m) = m"
| "message ReaderError = ''undefined''"

section \<open>The gateway: callGeminiAPI\<close>

text \<open>
  The three shapes of payload: the extraction request carries the file's MIME type and its
  base64 data (its instruction and its response schema are constants of the source), a text
  request carries its prompt (\<^verbatim>\<open>undefined\<close> when \<^verbatim>\<open>generateEmail\<close> is given an
  unknown type), the bulk request carries its prompt and asks for JSON.
\<close>

datatype payload =
    ExtractionRequest string string
  | TextRequest "string option"
  | JsonRequest string

record request =
  url :: string
  body :: payload

text \<open>
  The response envelope, at the shape the gateway reads it: every field may be absent, and
  a part is known by its \<^verbatim>\<open>text\<close> (absent when the part has none).
\<close>

datatype part = Part (part_text: "string option")
datatype content = Content (parts: "part list option")
datatype candidate = Candidate (content: "content option")
datatype prompt_feedback =
  PromptFeedback (blockReason: "string option") (blockReasonMessage: "string option")
datatype envelope =
  Envelope (candidates: "candidate list option") (promptFeedback: "prompt_feedback option")

text \<open>
  What \<^verbatim>\<open>fetch\<close> answers. \<open>body_text\<close> is the outcome of \<^verbatim>\<open>response.text()\<close> and
  \<open>body_json\<close> that of \<^verbatim>\<open>response.json()\<close>: on the left the message of a rejection,
  on the right the value; the JSON value \<^verbatim>\<open>null\<close> is \<open>None\<close>.
\<close>

record response =
  ok :: bool
  status :: nat
  body_text :: "string + string"
  body_json :: "string + envelope option"

datatype fetch_outcome = NetworkFailure string | Responded response

definition api_url :: "string \<Rightarrow> string" where
  "api_url apiKey =
     ''https://generativelanguage.googleapis.com/v1beta/models/gemini-2.0-flash:generateContent?key=''
       @ apiKey"

text \<open>
  The condition of the \<^verbatim>\<open>if\<close> at lines 489-491: the first part of the first
  candidate, when the candidate list, the content and the part list exist and the two lists
  are not empty.
\<close>

definition first_part :: "envelope \<Rightarrow> part option" where
  "first_part result =
     (case candidates result of
        None \<Rightarrow> None
      | Some [] \<Rightarrow> None
      | Some (c # cs) \<Rightarrow>
          (case content c of
             None \<Rightarrow> None
           | Some ct \<Rightarrow>
               (case parts ct of
                  None \<Rightarrow> None
                | Some [] \<Rightarrow> None
                | Some (p # ps) \<Rightarrow> Some p)))"

text \<open>The \<^verbatim>\<open>else\<close> branch, lines 494-498.\<close>

definition invalid_response :: "envelope \<Rightarrow> js_error" where
  "invalid_response result =
     (case promptFeedback result of
        None \<Rightarrow> InvalidStructure
      | Some feedback \<Rightarrow>
          (case blockReason feedback of
             None \<Rightarrow> InvalidStructure
           | Some reason \<Rightarrow>
               if reason = [] then InvalidStructure
               else RequestBlocked reason
                 (case blockReasonMessage feedback of None \<Rightarrow> [] | Some m \<Rightarrow> m)))"

definition read_envelope :: "envelope \<Rightarrow> js_error + string option" where
  "read_envelope result =
     (case first_part result of
        Some p \<Rightarrow> Inr (part_text p)
      | None \<Rightarrow> Inl (invalid_response result))"

text \<open>
  \<open>callGeminiAPI\<close> returns what the promise settles with (the error on the left, the
  text on the right, \<open>None\<close> for \<^verbatim>\<open>undefined\<close>) and the requests it handed to
  \<^verbatim>\<open>fetch\<close>.
\<close>

definition callGeminiAPI ::
  "(request \<Rightarrow> fetch_outcome) \<Rightarrow> payload \<Rightarrow> string \<Rightarrow> (js_error + string option) \<times> request list"
where
  "callGeminiAPI fetch payload apiKey =
     (if apiKey = [] then (Inl ApiKeyMissing, [])
      else
        let req = \<lparr>url = api_url apiKey, body = payload\<rparr> in
        ((case fetch req of
            NetworkFailure m \<Rightarrow> Inl (HostError m)
          | Responded response \<Rightarrow>
              if \<not> ok response then
                (case body_text response of
                   Inl m \<Rightarrow> Inl (HostError m)
                 | Inr errorBody \<Rightarrow> Inl (RequestFailed (status response) errorBody))
              else
                (case body_json response of
                   Inl m \<Rightarrow> Inl (SyntaxError m)
                 | Inr None \<Rightarrow>
                     Inl (TypeError ''Cannot read properties of null (reading 'candidates')'')
                 | Inr (Some result) \<Rightarrow> read_envelope result)),
         [req]))"

section \<open>The state of the application\<close>

text \<open>
  \<^verbatim>\<open>invoiceData\<close> is \<^verbatim>\<open>null\<close> or an object that passed line 670, so that its
  \<^verbatim>\<open>lineItems\<close> is an array of objects made by an object literal: the record type keeps
  the line items apart from the other own properties of the parsed object. Each line item
  is the list of its own properties.
\<close>

record 'n invoice =
  properties :: "'n obj"
  lineItems :: "'n obj list"

text \<open>The loading message, by the template that made it and the text in its hole.\<close>

datatype loading =
    NoMessage
  | Analyzing string
  | GettingCategory string
  | GettingAllCategories
  | Drafting string

text \<open>
  The \<^verbatim>\<open>useState\<close> cells of \<^verbatim>\<open>App\<close> that the modelled functions read or write.
  \<open>None\<close> is \<^verbatim>\<open>null\<close>; in \<open>modalContent\<close> it is also \<^verbatim>\<open>undefined\<close> (the modal
  shows for neither).
\<close>

record 'n app_state =
  invoiceData :: "'n invoice option"
  isLoading :: bool
  loadingMessage :: loading
  error :: "string option"
  fileName :: string
  modalContent :: "string option"
  modalTitle :: string
  isSettingsOpen :: bool
  apiKey :: string

text \<open>
  The browser around the application: the promise of \<^verbatim>\<open>toBase64\<close> (a FileReader) and
  \<^verbatim>\<open>fetch\<close>. An operation returns, beside its result, the list of the calls it made
  to them, in order.
\<close>

record js_file =
  file_name :: string
  file_type :: string

datatype read_outcome = ReadRejected | ReadResolved string

record environment =
  toBase64 :: "js_file \<Rightarrow> read_outcome"
  fetch :: "request \<Rightarrow> fetch_outcome"

datatype effect = Encoded js_file | Requested request

text \<open>
  A function passed to \<^verbatim>\<open>setInvoiceData\<close> is run by React when it processes the update,
  not by the statement that queued it: what it throws is not thrown into the \<^verbatim>\<open>try\<close>
  block around that statement. The render fails instead and, \<^verbatim>\<open>App\<close> having no error
  boundary, nothing of the application is shown any more. An operation that queues such a
  function ends in \<open>Rendered\<close> with the new state, or in \<open>RenderFailed\<close> with what the
  function threw.
\<close>

datatype 'n outcome = Rendered "'n app_state" | RenderFailed js_error

text \<open>The \<^verbatim>\<open>finally\<close> block of the four operations.\<close>

definition finally_block :: "'n app_state \<Rightarrow> 'n app_state" where
  "finally_block s = s\<lparr>isLoading := False, loadingMessage := NoMessage\<rparr>"

text \<open>The text that \<^verbatim>\<open>JSON.parse\<close> reads when it is given the gateway's result.\<close>

definition text_string :: "string option \<Rightarrow> string" where
  "text_string t = (case t of None \<Rightarrow> ''undefined'' | Some s \<Rightarrow> s)"

section \<open>Extraction: transcribeInvoice\<close>

text \<open>The object literal \<^verbatim>\<open>{ ...item, category: '' }\<close> of line 670.\<close>

definition with_category :: "'n jsval \<Rightarrow> 'n obj" where
  "with_category item = set_prop ''category'' (JStr []) (own_props item)"

text \<open>
  Line 670, \<^verbatim>\<open>parsedJson.lineItems = parsedJson.lineItems.map(...)\<close>: only an object
  with an array under \<^verbatim>\<open>lineItems\<close> passes; every other value raises a TypeError.
\<close>

definition add_categories :: "'n jsval \<Rightarrow> js_error + 'n invoice" where
  "add_categories parsedJson =
     (case parsedJson of
        JUndefined \<Rightarrow> Inl (TypeError ''Cannot read properties of undefined (reading 'lineItems')'')
      | JNull \<Rightarrow> Inl (TypeError ''Cannot read properties of null (reading 'lineItems')'')
      | JObj kvs \<Rightarrow>
          (case get_prop kvs ''lineItems'' of
             JArr items \<Rightarrow>
               Inr \<lparr>properties = filter (\<lambda>kv. fst kv \<noteq> ''lineItems'') kvs,
                    lineItems = map with_category items\<rparr>
           | JUndefined \<Rightarrow> Inl (TypeError ''Cannot read properties of undefined (reading 'map')'')
           | JNull \<Rightarrow> Inl (TypeError ''Cannot read properties of null (reading 'map')'')
           | _ \<Rightarrow> Inl (TypeError ''parsedJson.lineItems.map is not a function''))
      | _ \<Rightarrow> Inl (TypeError ''Cannot read properties of undefined (reading 'map')''))"

text \<open>Lines 669-670: the parse of the returned text, then the line above.\<close>

definition parse_invoice :: "'n builtins \<Rightarrow> string option \<Rightarrow> js_error + 'n invoice" where
  "parse_invoice B jsonText =
     (case JSON_parse B (text_string jsonText) of
        Inl m \<Rightarrow> Inl (SyntaxError m)
      | Inr parsedJson \<Rightarrow> add_categories parsedJson)"

text \<open>The \<^verbatim>\<open>try\<close> block, lines 639-671, up to the record it would install.\<close>

definition extract_invoice ::
  "environment \<Rightarrow> 'n builtins \<Rightarrow> js_file \<Rightarrow> string \<Rightarrow> (js_error + 'n invoice) \<times> effect list"
where
  "extract_invoice E B f key =
     (case toBase64 E f of
        ReadRejected \<Rightarrow> (Inl ReaderError, [Encoded f])
      | ReadResolved base64ImageData \<Rightarrow>
          (case callGeminiAPI (fetch E) (ExtractionRequest (file_type f) base64ImageData) key of
             (r, reqs) \<Rightarrow>
               ((case r of Inl e \<Rightarrow> Inl e | Inr jsonText \<Rightarrow> parse_invoice B jsonText),
                Encoded f # map Requested reqs)))"

text \<open>
  Lines 671-679, run on the state that is current when the promise settles: the record is
  installed or the error is set, then the \<^verbatim>\<open>finally\<close> block.
\<close>

definition transcribe_settle :: "js_error + 'n invoice \<Rightarrow> 'n app_state \<Rightarrow> 'n app_state" where
  "transcribe_settle r s =
     finally_block
       (case r of
          Inr parsedJson \<Rightarrow> s\<lparr>invoiceData := Some parsedJson\<rparr>
        | Inl err \<Rightarrow> s\<lparr>error := Some (''Failed to transcribe invoice. '' @ message err)\<rparr>)"

text \<open>Lines 632-636.\<close>

definition transcribe_begin :: "js_file \<Rightarrow> 'n app_state \<Rightarrow> 'n app_state" where
  "transcribe_begin f s =
     s\<lparr>isLoading := True, loadingMessage := Analyzing (file_name f), error := None,
       invoiceData := None, fileName := file_name f\<rparr>"

text \<open>
  The whole operation when nothing else touches the state while it waits. The file is
  \<open>None\<close> when the argument is \<^verbatim>\<open>null\<close> or \<^verbatim>\<open>undefined\<close>.
\<close>

definition transcribeInvoice ::
  "environment \<Rightarrow> 'n builtins \<Rightarrow> js_file option \<Rightarrow> 'n app_state \<Rightarrow> 'n app_state \<times> effect list"
where
  "transcribeInvoice E B file s =
     (case file of
        None \<Rightarrow> (s\<lparr>error := Some ''Please select a file first.''\<rparr>, [])
      | Some f \<Rightarrow>
          if apiKey s = [] then
            (s\<lparr>error := Some ''Please enter your Google AI API Key in Settings to proceed.'',
               isSettingsOpen := True\<rparr>, [])
          else
            (case extract_invoice E B f (apiKey s) of
               (r, effects) \<Rightarrow> (transcribe_settle r (transcribe_begin f s), effects)))"

section \<open>Single suggestion: getCategorySuggestion\<close>

text \<open>\<^verbatim>\<open>String.prototype.trim\<close>, on the white space that has a code unit below 256.\<close>

definition is_space :: "char \<Rightarrow> bool" where
  "is_space c = (c \<in> set [CHR 0x09, CHR 0x0A, CHR 0x0B, CHR 0x0C, CHR 0x0D, CHR 0x20, CHR 0xA0])"

definition trim :: "string \<Rightarrow> string" where
  "trim s = rev (dropWhile is_space (rev (dropWhile is_space s)))"

definition suggestion_prompt :: "string \<Rightarrow> string" where
  "suggestion_prompt itemDescription =
     ''Based on the item description \"'' @ itemDescription @
     ''\", suggest a single, common business expense category (e.g., \"Software\", \"Office Supplies\", \"Marketing\", \"Travel\", \"Meals & Entertainment\"). Respond with only the category name.''"

text \<open>
  The function passed to \<^verbatim>\<open>setInvoiceData\<close> at lines 692-696, applied to the record
  that is current when React runs it. It raises a TypeError when there is no record, when
  the gateway's text is \<^verbatim>\<open>undefined\<close> (it has no \<^verbatim>\<open>trim\<close>), and when the array has
  no element at the index. The assignment writes into the element that the previous state
  holds too; the previous state is not read again.
\<close>

definition suggestion_updater ::
  "nat \<Rightarrow> string option \<Rightarrow> 'n invoice option \<Rightarrow> js_error + 'n invoice"
where
  "suggestion_updater index category prevData =
     (case prevData of
        None \<Rightarrow> Inl (TypeError ''Cannot read properties of null (reading 'lineItems')'')
      | Some d \<Rightarrow>
          (case category of
             None \<Rightarrow> Inl (TypeError ''Cannot read properties of undefined (reading 'trim')'')
           | Some c \<Rightarrow>
               if index < length (lineItems d) then
                 Inr (d\<lparr>lineItems :=
                   (lineItems d)[index := set_prop ''category'' (JStr (trim c)) (lineItems d ! index)]\<rparr>)
               else Inl (TypeError ''Cannot set properties of undefined (setting 'category')'')))"

text \<open>Lines 684-686.\<close>

definition suggestion_begin :: "'n builtins \<Rightarrow> 'n jsval \<Rightarrow> 'n app_state \<Rightarrow> 'n app_state" where
  "suggestion_begin B itemDescription s =
     s\<lparr>isLoading := True, loadingMessage := GettingCategory (js_toString B itemDescription),
       error := None\<rparr>"

text \<open>
  Lines 692-703, run on the state that is current when the gateway's promise settles: the
  merge or the \<^verbatim>\<open>catch\<close> block, then the \<^verbatim>\<open>finally\<close> block.
\<close>

definition suggestion_settle ::
  "nat \<Rightarrow> js_error + string option \<Rightarrow> 'n app_state \<Rightarrow> 'n outcome"
where
  "suggestion_settle index r s =
     (case r of
        Inl err \<Rightarrow>
          Rendered (finally_block
            (s\<lparr>error := Some (''Failed to get category suggestion. '' @ message err)\<rparr>))
      | Inr category \<Rightarrow>
          (case suggestion_updater index category (invoiceData s) of
             Inl err \<Rightarrow> RenderFailed err
           | Inr d \<Rightarrow> Rendered (finally_block (s\<lparr>invoiceData := Some d\<rparr>))))"

text \<open>The whole operation when nothing else touches the state while it waits.\<close>

definition getCategorySuggestion ::
  "environment \<Rightarrow> 'n builtins \<Rightarrow> 'n jsval \<Rightarrow> nat \<Rightarrow> 'n app_state \<Rightarrow> 'n outcome \<times> effect list"
where
  "getCategorySuggestion E B itemDescription index s =
     (case callGeminiAPI (fetch E)
             (TextRequest (Some (suggestion_prompt (js_toString B itemDescription)))) (apiKey s) of
        (r, reqs) \<Rightarrow>
          (suggestion_settle index r (suggestion_begin B itemDescription s), map Requested reqs))"

section \<open>Batch suggestion: getAllCategorySuggestions\<close>

text \<open>
  \<^verbatim>\<open>categories[item.description]\<close>: the key is the description as a string. Reading a
  member of \<^verbatim>\<open>null\<close> or \<^verbatim>\<open>undefined\<close> raises a TypeError. The members that a value
  inherits from its prototype, and the length of an array or of a string, are not
  modelled: the value is exact for every key that is not the name of such a member.
\<close>

definition js_member :: "'n builtins \<Rightarrow> 'n jsval \<Rightarrow> 'n jsval \<Rightarrow> js_error + 'n jsval" where
  "js_member B v key =
     (case v of
        JUndefined \<Rightarrow> Inl (TypeError ''Cannot read properties of undefined'')
      | JNull \<Rightarrow> Inl (TypeError ''Cannot read properties of null'')
      | _ \<Rightarrow> Inr (get_prop (own_props v) (js_toString B key)))"

fun map_result :: "('a \<Rightarrow> 'e + 'b) \<Rightarrow> 'a list \<Rightarrow> 'e + 'b list" where
  "map_result f [] = Inr []"
| "map_result f (x # xs) =
     (case f x of
        Inl e \<Rightarrow> Inl e
      | Inr y \<Rightarrow> (case map_result f xs of Inl e \<Rightarrow> Inl e | Inr ys \<Rightarrow> Inr (y # ys)))"

text \<open>
  The object literal of lines 725-728:
  \<^verbatim>\<open>{ ...item, category: categories[item.description] || item.category || '' }\<close>.
\<close>

definition merge_category :: "'n builtins \<Rightarrow> 'n jsval \<Rightarrow> 'n obj \<Rightarrow> js_error + 'n obj" where
  "merge_category B categories item =
     (case js_member B categories (get_prop item ''description'') of
        Inl e \<Rightarrow> Inl e
      | Inr suggested \<Rightarrow>
          Inr (set_prop ''category''
                 (js_or B (js_or B suggested (get_prop item ''category'')) (JStr [])) item))"

text \<open>The function passed to \<^verbatim>\<open>setInvoiceData\<close> at lines 724-730.\<close>

definition batch_updater ::
  "'n builtins \<Rightarrow> 'n jsval \<Rightarrow> 'n invoice option \<Rightarrow> js_error + 'n invoice"
where
  "batch_updater B categories prevData =
     (case prevData of
        None \<Rightarrow> Inl (TypeError ''Cannot read properties of null (reading 'lineItems')'')
      | Some d \<Rightarrow>
          (case map_result (merge_category B categories) (lineItems d) of
             Inl e \<Rightarrow> Inl e
           | Inr newLineItems \<Rightarrow> Inr (d\<lparr>lineItems := newLineItems\<rparr>)))"

definition batch_prompt :: "'n builtins \<Rightarrow> 'n invoice \<Rightarrow> string" where
  "batch_prompt B d =
     ''For each item description in this list, suggest a single, common business expense category. Descriptions: '' @
     JSON_stringify B (JArr (map (\<lambda>item. get_prop item ''description'') (lineItems d))) @
     ''. Respond with a JSON object where keys are the original descriptions and values are the suggested categories.''"

text \<open>Lines 710-712.\<close>

definition batch_begin :: "'n app_state \<Rightarrow> 'n app_state" where
  "batch_begin s = s\<lparr>isLoading := True, loadingMessage := GettingAllCategories, error := None\<rparr>"

text \<open>Line 722 on the gateway's result.\<close>

definition parse_categories ::
  "'n builtins \<Rightarrow> js_error + string option \<Rightarrow> js_error + 'n jsval"
where
  "parse_categories B r =
     (case r of
        Inl e \<Rightarrow> Inl e
      | Inr responseText \<Rightarrow>
          (case JSON_parse B (text_string responseText) of
             Inl m \<Rightarrow> Inl (SyntaxError m)
           | Inr categories \<Rightarrow> Inr categories))"

text \<open>Lines 724-738, run on the state that is current when the promise settles.\<close>

definition batch_settle ::
  "'n builtins \<Rightarrow> js_error + 'n jsval \<Rightarrow> 'n app_state \<Rightarrow> 'n outcome"
where
  "batch_settle B r s =
     (case r of
        Inl err \<Rightarrow>
          Rendered (finally_block
            (s\<lparr>error := Some (''Failed to get all category suggestions. '' @ message err)\<rparr>))
      | Inr categories \<Rightarrow>
          (case batch_updater B categories (invoiceData s) of
             Inl err \<Rightarrow> RenderFailed err
           | Inr d \<Rightarrow> Rendered (finally_block (s\<lparr>invoiceData := Some d\<rparr>))))"

text \<open>
  The whole operation when nothing else touches the state while it waits. The guard of
  line 708 returns when there is no record (the \<^verbatim>\<open>lineItems\<close> of a record is an array,
  which counts as true).
\<close>

definition getAllCategorySuggestions ::
  "environment \<Rightarrow> 'n builtins \<Rightarrow> 'n app_state \<Rightarrow> 'n outcome \<times> effect list"
where
  "getAllCategorySuggestions E B s =
     (case invoiceData s of
        None \<Rightarrow> (Rendered s, [])
      | Some d \<Rightarrow>
          (case callGeminiAPI (fetch E) (JsonRequest (batch_prompt B d)) (apiKey s) of
             (r, reqs) \<Rightarrow>
               (batch_settle B (parse_categories B r) (batch_begin s), map Requested reqs)))"

section \<open>Email drafts: generateEmail\<close>

text \<open>
  \<^verbatim>\<open>invoiceData.total.toFixed(2)\<close>: only a number has the method; \<^verbatim>\<open>undefined\<close> and
  \<^verbatim>\<open>null\<close> have no properties at all.
\<close>

definition total_toFixed2 :: "'n builtins \<Rightarrow> 'n jsval \<Rightarrow> js_error + string" where
  "total_toFixed2 B v =
     (case v of
        JNum n \<Rightarrow> Inr (num_toFixed2 B n)
      | JUndefined \<Rightarrow> Inl (TypeError ''Cannot read properties of undefined (reading 'toFixed')'')
      | JNull \<Rightarrow> Inl (TypeError ''Cannot read properties of null (reading 'toFixed')'')
      | _ \<Rightarrow> Inl (TypeError ''invoiceData.total.toFixed is not a function''))"

text \<open>Line 749.\<close>

definition currencySymbol :: "'n builtins \<Rightarrow> 'n invoice \<Rightarrow> string" where
  "currencySymbol B d = js_toString B (js_or B (get_prop (properties d) ''currency'') (JStr ''$''))"

definition approval_prompt :: "'n builtins \<Rightarrow> 'n invoice \<Rightarrow> js_error + string" where
  "approval_prompt B d =
     (case total_toFixed2 B (get_prop (properties d) ''total'') of
        Inl e \<Rightarrow> Inl e
      | Inr amount \<Rightarrow>
          Inr (''Write a polite and professional email to an internal accounting department to request payment approval for the following invoice. Keep it concise.\<newline>                Invoice Details:\<newline>                - From: '' @
               js_toString B (get_prop (properties d) ''from'') @
               ''\<newline>                - Invoice Number: '' @
               js_toString B (get_prop (properties d) ''invoiceNumber'') @
               ''\<newline>                - Total Amount: '' @
               currencySymbol B d @ amount @
               ''\<newline>                - Due Date: '' @
               js_toString B (get_prop (properties d) ''dueDate'') @
               ''\<newline>                Sign off as \"Best regards,\".''))"

definition query_prompt :: "'n builtins \<Rightarrow> 'n invoice \<Rightarrow> js_error + string" where
  "query_prompt B d =
     (case total_toFixed2 B (get_prop (properties d) ''total'') of
        Inl e \<Rightarrow> Inl e
      | Inr amount \<Rightarrow>
          Inr (''Write a polite and professional email to a vendor ('' @
               js_toString B (get_prop (properties d) ''from'') @
               '') to ask for clarification on their invoice. Mention the invoice number ('' @
               js_toString B (get_prop (properties d) ''invoiceNumber'') @
               '') and total amount ('' @
               currencySymbol B d @ amount @
               ''). Include a placeholder like \"[INSERT QUESTION ABOUT A SPECIFIC CHARGE HERE]\" for the user to fill in. Keep it concise.\<newline>                 Sign off as \"Thank you,\".''))"

text \<open>
  Lines 750-764: the prompt, \<open>None\<close> when the type is neither of the two
  (\<^verbatim>\<open>prompt\<close> stays \<^verbatim>\<open>undefined\<close>), or the TypeError of the template.
\<close>

definition email_prompt :: "'n builtins \<Rightarrow> string \<Rightarrow> 'n invoice \<Rightarrow> js_error + string option" where
  "email_prompt B emailType d =
     (if emailType = ''Payment Approval'' then map_sum id Some (approval_prompt B d)
      else if emailType = ''Vendor Query'' then map_sum id Some (query_prompt B d)
      else Inr None)"

text \<open>Lines 745-747 and the \<^verbatim>\<open>setModalTitle\<close> of the branch taken.\<close>

definition email_begin :: "string \<Rightarrow> 'n app_state \<Rightarrow> 'n app_state" where
  "email_begin emailType s =
     (let s1 = s\<lparr>isLoading := True, loadingMessage := Drafting emailType, error := None\<rparr> in
      if emailType = ''Payment Approval'' then s1\<lparr>modalTitle := ''Draft: Payment Approval Request''\<rparr>
      else if emailType = ''Vendor Query'' then s1\<lparr>modalTitle := ''Draft: Query to Vendor''\<rparr>
      else s1)"

text \<open>Lines 768-776, run on the state that is current when the promise settles.\<close>

definition email_settle :: "js_error + string option \<Rightarrow> 'n app_state \<Rightarrow> 'n app_state" where
  "email_settle r s =
     finally_block
       (case r of
          Inr emailContent \<Rightarrow> s\<lparr>modalContent := emailContent\<rparr>
        | Inl err \<Rightarrow> s\<lparr>error := Some (''Failed to generate email. '' @ message err)\<rparr>)"

text \<open>The whole operation when nothing else touches the state while it waits.\<close>

definition generateEmail ::
  "environment \<Rightarrow> 'n builtins \<Rightarrow> string \<Rightarrow> 'n app_state \<Rightarrow> 'n app_state \<times> effect list"
where
  "generateEmail E B emailType s =
     (case invoiceData s of
        None \<Rightarrow> (s, [])
      | Some d \<Rightarrow>
          (case email_prompt B emailType d of
             Inl err \<Rightarrow> (email_settle (Inl err) (email_begin emailType s), [])
           | Inr prompt \<Rightarrow>
               (case callGeminiAPI (fetch E) (TextRequest prompt) (apiKey s) of
                  (r, reqs) \<Rightarrow> (email_settle r (email_begin emailType s), map Requested reqs))))"

section \<open>CSV export: downloadCSV\<close>

text \<open>\<^verbatim>\<open>.replace(/"/g, '""')\<close>.\<close>

definition csv_escape :: "string \<Rightarrow> string" where
  "csv_escape s = concat (map (\<lambda>c. if c = CHR 0x22 then [c, c] else [c]) s)"

text \<open>
  The template of lines 810, 813 and 814: the value or the empty string, escaped and put
  between double quotes. A value that counts as true and is not a string has no
  \<^verbatim>\<open>replace\<close>.
\<close>

definition quoted :: "'n builtins \<Rightarrow> 'n jsval \<Rightarrow> js_error + 'n jsval" where
  "quoted B v =
     (case js_or B v (JStr []) of
        JStr s \<Rightarrow> Inr (JStr ([CHR 0x22] @ csv_escape s @ [CHR 0x22]))
      | _ \<Rightarrow> Inl (TypeError ''(intermediate value).replace is not a function''))"

text \<open>The twelve elements of the array \<^verbatim>\<open>row\<close>, lines 808-821, before they are joined.\<close>

definition csv_cells :: "'n builtins \<Rightarrow> 'n invoice \<Rightarrow> nat \<Rightarrow> 'n obj \<Rightarrow> js_error + 'n jsval list" where
  "csv_cells B d index item =
     (case (if index = 0 then quoted B (get_prop (properties d) ''billedTo'') else Inr (JStr [])) of
        Inl e \<Rightarrow> Inl e
      | Inr customer \<Rightarrow>
          (case quoted B (get_prop item ''description'') of
             Inl e \<Rightarrow> Inl e
           | Inr description \<Rightarrow>
               Inr [if index = 0 then js_or B (get_prop (properties d) ''invoiceNumber'') (JStr []) else JStr [],
                    customer,
                    if index = 0 then js_or B (get_prop (properties d) ''invoiceDate'') (JStr []) else JStr [],
                    if index = 0 then js_or B (get_prop (properties d) ''dueDate'') (JStr []) else JStr [],
                    description,
                    description,
                    js_or B (get_prop item ''quantity'') (JNum (num_zero B)),
                    js_or B (get_prop item ''unitPrice'') (JNum (num_zero B)),
                    js_or B (get_prop item ''total'') (JNum (num_zero B)),
                    if index = 0 then js_or B (get_prop (properties d) ''tax'') (JNum (num_zero B)) else JStr [],
                    js_or B (get_prop item ''category'') (JStr []),
                    if index = 0 then js_or B (get_prop (properties d) ''currency'') (JStr []) else JStr []]))"

definition csv_row :: "'n builtins \<Rightarrow> 'n invoice \<Rightarrow> nat \<times> 'n obj \<Rightarrow> js_error + string" where
  "csv_row B d numbered =
     (case csv_cells B d (fst numbered) (snd numbered) of
        Inl e \<Rightarrow> Inl e
      | Inr cells \<Rightarrow> Inr (js_toString B (JArr cells)))"

definition csv_headers :: "string list" where
  "csv_headers =
     [''Invoice no.'', ''Customer'', ''Invoice date'', ''Due date'', ''Item(Product/Service)'',
      ''Description'', ''Item quantity'', ''Item rate'', ''Item amount'', ''Tax amount'',
      ''Item Category'', ''Currency'']"

text \<open>The rows that the loop of lines 807-823 appends, one for each line item, in order.\<close>

definition csv_rows :: "'n builtins \<Rightarrow> 'n invoice \<Rightarrow> js_error + string list" where
  "csv_rows B d = map_result (csv_row B d) (zip [0 ..< length (lineItems d)] (lineItems d))"

text \<open>
  \<^verbatim>\<open>csvContent\<close> as it is handed to \<^verbatim>\<open>encodeURI\<close> at line 824, or the TypeError that
  ends the handler; \<open>None\<close> when the guard of line 804 returns. The encoding of the URI and
  the download are the browser's.
\<close>

definition csvContent :: "'n builtins \<Rightarrow> 'n invoice \<Rightarrow> js_error + string" where
  "csvContent B d =
     (case csv_rows B d of
        Inl e \<Rightarrow> Inl e
      | Inr rows \<Rightarrow>
          Inr (''data:text/csv;charset=utf-8,'' @ join_with '','' csv_headers @ ''\<newline>'' @
               concat (map (\<lambda>row. row @ ''\<newline>'') rows)))"

definition downloadCSV :: "'n builtins \<Rightarrow> 'n app_state \<Rightarrow> (js_error + string) option" where
  "downloadCSV B s = map_option (csvContent B) (invoiceData s)"

section \<open>A sample engine, browser and session\<close>

text \<open>
  The concrete inputs on which the statements below are run. The sample engine has the
  natural numbers for its numbers; its \<open>JSON_parse\<close> is the table of \<^verbatim>\<open>JSON.parse\<close> on
  the texts of the examples and rejects every other text, and its \<open>JSON_stringify\<close>
  agrees with \<^verbatim>\<open>JSON.stringify\<close> on arrays and objects of natural numbers and of strings
  without control characters.
\<close>

definition invoice_text :: string where
  "invoice_text = ''{\"invoiceNumber\":\"INV-1\",\"lineItems\":[{\"description\":\"Widget\",\"quantity\":2,\"unitPrice\":5,\"total\":10}],\"subtotal\":10,\"tax\":0,\"total\":10,\"currency\":\"$\"}''"

definition two_items_text :: string where
  "two_items_text = ''{\"invoiceNumber\":\"INV-2\",\"lineItems\":[{\"description\":\"Gadget\",\"quantity\":1,\"unitPrice\":7,\"total\":7},{\"description\":\"Gizmo\",\"quantity\":1,\"unitPrice\":3,\"total\":3}],\"subtotal\":10,\"tax\":0,\"total\":10,\"currency\":\"$\"}''"

definition empty_items_text :: string where
  "empty_items_text = ''{\"invoiceNumber\":\"INV-3\",\"lineItems\":[]}''"

definition no_items_text :: string where
  "no_items_text = ''{\"invoiceNumber\":\"INV-4\"}''"

definition no_total_text :: string where
  "no_total_text = ''{\"invoiceNumber\":\"INV-5\",\"from\":\"Acme\",\"lineItems\":[{\"description\":\"Widget\"}],\"total\":null}''"

definition sample_parse :: "string \<Rightarrow> string + nat jsval" where
  "sample_parse t =
     (if t = invoice_text then
        Inr (JObj [(''invoiceNumber'', JStr ''INV-1''),
                   (''lineItems'', JArr [JObj [(''description'', JStr ''Widget''), (''quantity'', JNum 2),
                                               (''unitPrice'', JNum 5), (''total'', JNum 10)]]),
                   (''subtotal'', JNum 10), (''tax'', JNum 0), (''total'', JNum 10),
                   (''currency'', JStr ''$'')])
      else if t = two_items_text then
        Inr (JObj [(''invoiceNumber'', JStr ''INV-2''),
                   (''lineItems'', JArr [JObj [(''description'', JStr ''Gadget''), (''quantity'', JNum 1),
                                               (''unitPrice'', JNum 7), (''total'', JNum 7)],
                                         JObj [(''description'', JStr ''Gizmo''), (''quantity'', JNum 1),
                                               (''unitPrice'', JNum 3), (''total'', JNum 3)]]),
                   (''subtotal'', JNum 10), (''tax'', JNum 0), (''total'', JNum 10),
                   (''currency'', JStr ''$'')])
      else if t = empty_items_text then
        Inr (JObj [(''invoiceNumber'', JStr ''INV-3''), (''lineItems'', JArr [])])
      else if t = no_items_text then
        Inr (JObj [(''invoiceNumber'', JStr ''INV-4'')])
      else if t = no_total_text then
        Inr (JObj [(''invoiceNumber'', JStr ''INV-5''), (''from'', JStr ''Acme''),
                   (''lineItems'', JArr [JObj [(''description'', JStr ''Widget'')]]),
                   (''total'', JNull)])
      else if t = ''{\"Widget\":\"Equipment\"}'' then Inr (JObj [(''Widget'', JStr ''Equipment'')])
      else if t = ''{\"Widget\":\"\"}'' then Inr (JObj [(''Widget'', JStr [])])
      else if t = ''null'' then Inr JNull
      else Inl ''Unexpected token in JSON'')"

definition quote_json :: "string \<Rightarrow> string" where
  "quote_json s =
     [CHR 0x22] @ concat (map (\<lambda>c. if c = CHR 0x22 \<or> c = CHR 0x5C then [CHR 0x5C, c] else [c]) s)
       @ [CHR 0x22]"

fun sample_stringify :: "nat jsval \<Rightarrow> string"
  and stringify_elements :: "nat jsval list \<Rightarrow> string list"
  and stringify_members :: "(string \<times> nat jsval) list \<Rightarrow> string list" where
  "sample_stringify JUndefined = ''null''"
| "sample_stringify JNull = ''null''"
| "sample_stringify (JBool b) = (if b then ''true'' else ''false'')"
| "sample_stringify (JNum n) = show_nat n"
| "sample_stringify (JStr s) = quote_json s"
| "sample_stringify (JArr xs) = ''['' @ join_with '','' (stringify_elements xs) @ '']''"
| "sample_stringify (JObj kvs) = ''{'' @ join_with '','' (stringify_members kvs) @ ''}''"
| "stringify_elements [] = []"
| "stringify_elements (x # xs) = sample_stringify x # stringify_elements xs"
| "stringify_members [] = []"
| "stringify_members ((k, JUndefined) # kvs) = stringify_members kvs"
| "stringify_members ((k, v) # kvs) =
     (quote_json k @ '':'' @ sample_stringify v) # stringify_members kvs"

definition sample_builtins :: "nat builtins" where
  "sample_builtins =
     \<lparr>num_falsy = (\<lambda>n. n = 0), num_string = show_nat,
      num_toFixed2 = (\<lambda>n. show_nat n @ ''.00''), num_zero = 0,
      JSON_parse = sample_parse, JSON_stringify = sample_stringify\<rparr>"

text \<open>
  A \<^verbatim>\<open>fetch\<close> that answers every request with status 200 and an envelope of one
  candidate with one part, of the given text; one that answers with status 429; a browser
  that reads every file and answers with the given text.
\<close>

definition answering :: "string option \<Rightarrow> request \<Rightarrow> fetch_outcome" where
  "answering t req =
     Responded \<lparr>ok = True, status = 200, body_text = Inr [],
                body_json = Inr (Some (Envelope (Some [Candidate (Some (Content (Some [Part t])))]) None))\<rparr>"


definition reading :: "js_file \<Rightarrow> read_outcome" where
  "reading f = ReadResolved ''aW52b2ljZQ==''"

definition browser :: "string option \<Rightarrow> environment" where
  "browser t = \<lparr>toBase64 = reading, fetch = answering t\<rparr>"

definition sample_file :: js_file where
  "sample_file = \<lparr>file_name = ''invoice.png'', file_type = ''image/png''\<rparr>"

text \<open>The initial values of the \<^verbatim>\<open>useState\<close> cells, with the stored API key.\<close>

definition initial_state :: "string \<Rightarrow> nat app_state" where
  "initial_state key =
     \<lparr>invoiceData = None, isLoading = False, loadingMessage = NoMessage, error = None,
      fileName = [], modalContent = None, modalTitle = [], isSettingsOpen = False,
      apiKey = key\<rparr>"

text \<open>The session after the invoice of \<open>invoice_text\<close> was extracted.\<close>

definition widget_invoice :: "nat invoice" where
  "widget_invoice =
     \<lparr>properties = [(''invoiceNumber'', JStr ''INV-1''), (''subtotal'', JNum 10), (''tax'', JNum 0),
                     (''total'', JNum 10), (''currency'', JStr ''$'')],
      lineItems = [[(''description'', JStr ''Widget''), (''quantity'', JNum 2), (''unitPrice'', JNum 5),
                    (''total'', JNum 10), (''category'', JStr [])]]\<rparr>"

definition widget_state :: "string \<Rightarrow> nat app_state" where
  "widget_state key =
     (initial_state key)\<lparr>invoiceData := Some widget_invoice, fileName := ''invoice.png''\<rparr>"

text \<open>The handler of the button "Upload New", line 895: \<^verbatim>\<open>setInvoiceData(null)\<close>.\<close>

definition upload_new :: "'n app_state \<Rightarrow> 'n app_state" where
  "upload_new s = s\<lparr>invoiceData := None\<rparr>"

text \<open>
  A suggestion for the first line item of that invoice is on its way (line 690) when the
  user presses "Upload New" and drops a second file, and the extraction of the second
  invoice (\<open>two_items_text\<close>) ends before the suggestion does: \<open>replaced_session\<close> is the
  state in which the suggestion then settles.
\<close>

definition gadget_invoice :: "nat invoice" where
  "gadget_invoice =
     \<lparr>properties = [(''invoiceNumber'', JStr ''INV-2''), (''subtotal'', JNum 10), (''tax'', JNum 0),
                     (''total'', JNum 10), (''currency'', JStr ''$'')],
      lineItems = [[(''description'', JStr ''Gadget''), (''quantity'', JNum 1), (''unitPrice'', JNum 7),
                    (''total'', JNum 7), (''category'', JStr [])],
                   [(''description'', JStr ''Gizmo''), (''quantity'', JNum 1), (''unitPrice'', JNum 3),
                    (''total'', JNum 3), (''category'', JStr [])]]\<rparr>"

definition replaced_session :: "nat app_state" where
  "replaced_session =
     fst (transcribeInvoice (browser (Some two_items_text)) sample_builtins (Some sample_file)
            (upload_new (suggestion_begin sample_builtins (JStr ''Widget'') (widget_state ''key''))))"



text \<open>
  The record of \<open>no_total_text\<close>, whose \<^verbatim>\<open>total\<close> is \<^verbatim>\<open>null\<close>, and the record of
  \<open>invoice_text\<close> after a category with double quotes in it was put on its line item (by
  the user at line 783, or by a suggestion that came back with quotes in it).
\<close>

definition no_total_invoice :: "nat invoice" where
  "no_total_invoice =
     \<lparr>properties = [(''invoiceNumber'', JStr ''INV-5''), (''from'', JStr ''Acme''), (''total'', JNull)],
      lineItems = [[(''description'', JStr ''Widget''), (''category'', JStr [])]]\<rparr>"

definition travel_invoice :: "nat invoice" where
  "travel_invoice =
     widget_invoice\<lparr>lineItems :=
       [[(''description'', JStr ''Widget''), (''quantity'', JNum 2), (''unitPrice'', JNum 5),
         (''total'', JNum 10), (''category'', JStr ''Travel \"EU\"'')]]\<rparr>"

section \<open>Properties of objects\<close>

lemma get_prop_set_prop_same: "get_prop (set_prop k v kvs) k = v"
  by (induction kvs) (auto simp: get_prop_def)

lemma get_prop_set_prop_other: "k' \<noteq> k \<Longrightarrow> get_prop (set_prop k v kvs) k' = get_prop kvs k'"
  by (induction kvs) (auto simp: get_prop_def)

lemma with_category_empty: "get_prop (with_category item) ''category'' = JStr []"
  by (simp add: with_category_def get_prop_set_prop_same)

section \<open>Extraction\<close>

lemma add_categories_Inr:
  assumes "add_categories parsedJson = Inr d"
  shows "\<exists>kvs items. parsedJson = JObj kvs \<and> get_prop kvs ''lineItems'' = JArr items \<and>
           d = \<lparr>properties = filter (\<lambda>kv. fst kv \<noteq> ''lineItems'') kvs,
                lineItems = map with_category items\<rparr>"
  using assms by (auto simp: add_categories_def split: jsval.splits)

lemma add_categories_Inl:
  assumes "\<nexists>kvs items. parsedJson = JObj kvs \<and> get_prop kvs ''lineItems'' = JArr items"
  shows "\<exists>m. add_categories parsedJson = Inl (TypeError m)"
  using assms by (auto simp: add_categories_def split: jsval.splits)

lemma transcribe_settle_Inr:
  "transcribe_settle (Inr d) s =
     s\<lparr>invoiceData := Some d, isLoading := False, loadingMessage := NoMessage\<rparr>"
  by (simp add: transcribe_settle_def finally_block_def)

lemma transcribe_settle_Inl:
  "transcribe_settle (Inl e) s =
     s\<lparr>error := Some (''Failed to transcribe invoice. '' @ message e), isLoading := False,
       loadingMessage := NoMessage\<rparr>"
  by (simp add: transcribe_settle_def finally_block_def)

lemma transcribeInvoice_run:
  assumes "apiKey s \<noteq> []"
  shows "transcribeInvoice E B (Some f) s =
           (transcribe_settle (fst (extract_invoice E B f (apiKey s))) (transcribe_begin f s),
            snd (extract_invoice E B f (apiKey s)))"
  using assms by (simp add: transcribeInvoice_def split: prod.splits)

lemma extract_invoice_parsed:
  assumes "toBase64 E f = ReadResolved data"
    and "fst (callGeminiAPI (fetch E) (ExtractionRequest (file_type f) data) key) = Inr jsonText"
    and "JSON_parse B (text_string jsonText) = Inr parsedJson"
  shows "fst (extract_invoice E B f key) = add_categories parsedJson"
  using assms by (auto simp: extract_invoice_def parse_invoice_def split: prod.splits)

lemma extract_invoice_Inr:
  assumes "fst (extract_invoice E B f key) = Inr d"
  shows "\<exists>data jsonText parsedJson. toBase64 E f = ReadResolved data \<and>
           fst (callGeminiAPI (fetch E) (ExtractionRequest (file_type f) data) key) = Inr jsonText \<and>
           JSON_parse B (text_string jsonText) = Inr parsedJson \<and> add_categories parsedJson = Inr d"
  using assms
  by (auto simp: extract_invoice_def parse_invoice_def split: read_outcome.splits prod.splits sum.splits)

lemma sample_extraction:
  "fst (transcribeInvoice (browser (Some invoice_text)) sample_builtins (Some sample_file)
         (initial_state ''key'')) = widget_state ''key''"
  by code_simp

text \<open>
  Claim C1. An extraction is successful when \<open>transcribeInvoice\<close>, called with a file and
  with an API key, leaves a record in the state (it clears the record before it does
  anything else). Then the file was read, the gateway returned a text, the text parsed to an
  object whose \<^verbatim>\<open>lineItems\<close> is an array, the installed record has exactly as many line
  items as that array has elements, and the category of every one of them is the empty
  string.
\<close>

theorem extraction_installs_every_line_item:
  assumes key: "apiKey s \<noteq> []"
    and installed: "invoiceData (fst (transcribeInvoice E B (Some f) s)) = Some d"
  shows "\<exists>data jsonText kvs items.
           toBase64 E f = ReadResolved data \<and>
           fst (callGeminiAPI (fetch E) (ExtractionRequest (file_type f) data) (apiKey s)) = Inr jsonText \<and>
           JSON_parse B (text_string jsonText) = Inr (JObj kvs) \<and>
           get_prop kvs ''lineItems'' = JArr items \<and>
           length (lineItems d) = length items \<and>
           (\<forall>item \<in> set (lineItems d). get_prop item ''category'' = JStr [])"
proof -
  let ?r = "fst (extract_invoice E B f (apiKey s))"
  have run: "fst (transcribeInvoice E B (Some f) s) = transcribe_settle ?r (transcribe_begin f s)"
    using key by (simp add: transcribeInvoice_run)
  have "?r = Inr d"
  proof (cases ?r)
    case (Inl e)
    with run installed show ?thesis
      by (simp add: transcribe_settle_Inl transcribe_begin_def)
  next
    case (Inr d')
    with run installed show ?thesis
      by (simp add: transcribe_settle_Inr)
  qed
  then obtain data jsonText parsedJson where
    read: "toBase64 E f = ReadResolved data" and
    call: "fst (callGeminiAPI (fetch E) (ExtractionRequest (file_type f) data) (apiKey s)) = Inr jsonText" and
    parsed: "JSON_parse B (text_string jsonText) = Inr parsedJson" and
    added: "add_categories parsedJson = Inr d"
    using extract_invoice_Inr by blast
  from added obtain kvs items where
    shape: "parsedJson = JObj kvs" "get_prop kvs ''lineItems'' = JArr items" and
    d: "d = \<lparr>properties = filter (\<lambda>kv. fst kv \<noteq> ''lineItems'') kvs,
              lineItems = map with_category items\<rparr>"
    using add_categories_Inr by blast
  from d have "length (lineItems d) = length items"
    and "\<forall>item \<in> set (lineItems d). get_prop item ''category'' = JStr []"
    by (auto simp: with_category_empty)
  with read call parsed shape show ?thesis by blast
qed

theorem extraction_installs_every_line_item_witness:
  "apiKey (initial_state ''key'') \<noteq> [] \<and>
   invoiceData (fst (transcribeInvoice (browser (Some invoice_text)) sample_builtins
      (Some sample_file) (initial_state ''key''))) = Some widget_invoice \<and>
   length (lineItems widget_invoice) = 1 \<and>
   get_prop (hd (lineItems widget_invoice)) ''category'' = JStr []"
proof -
  have key: "apiKey (initial_state ''key'') \<noteq> []"
    by (simp add: initial_state_def)
  have installed: "invoiceData (fst (transcribeInvoice (browser (Some invoice_text)) sample_builtins
      (Some sample_file) (initial_state ''key''))) = Some widget_invoice"
    by (simp add: sample_extraction widget_state_def)
  have items: "lineItems widget_invoice \<noteq> []" "length (lineItems widget_invoice) = 1"
    by (simp_all add: widget_invoice_def)
  from extraction_installs_every_line_item [OF key installed]
  have "\<forall>item \<in> set (lineItems widget_invoice). get_prop item ''category'' = JStr []"
    by blast
  with items have "get_prop (hd (lineItems widget_invoice)) ''category'' = JStr []"
    by simp
  with key installed items show ?thesis by simp
qed

section \<open>Extraction without line items\<close>

lemma sample_empty_extraction:
  "fst (transcribeInvoice (browser (Some empty_items_text)) sample_builtins (Some sample_file)
         (initial_state ''key'')) =
   (initial_state ''key'')\<lparr>invoiceData := Some \<lparr>properties = [(''invoiceNumber'', JStr ''INV-3'')], lineItems = []\<rparr>,
      fileName := ''invoice.png''\<rparr>"
  by code_simp

text \<open>
  Claim C2, as stated, fails: no line of the source looks at the length of the array. A
  response whose \<^verbatim>\<open>lineItems\<close> is the empty array is installed as a record with no line item,
  and no error is set.
\<close>

theorem empty_lineItems_installs_record:
  "invoiceData (fst (transcribeInvoice (browser (Some empty_items_text)) sample_builtins
      (Some sample_file) (initial_state ''key''))) =
     Some \<lparr>properties = [(''invoiceNumber'', JStr ''INV-3'')], lineItems = []\<rparr> \<and>
   error (fst (transcribeInvoice (browser (Some empty_items_text)) sample_builtins
      (Some sample_file) (initial_state ''key''))) = None"
  unfolding sample_empty_extraction by (simp add: initial_state_def)

text \<open>
  Claim C2, amended. When the text parses to a value that has no array under
  \<^verbatim>\<open>lineItems\<close> (the field is missing, or the value is not an object, or the field is not
  an array), the extraction fails: the record stays absent, the busy flag is cleared and the
  error is \<^verbatim>\<open>Failed to transcribe invoice. \<close> followed by the message of a TypeError (the
  source has no error of a kind of its own for a malformed response). When \<^verbatim>\<open>lineItems\<close>
  is the empty array, the extraction succeeds with a record that has no line item.
\<close>

theorem extraction_without_lineItems_array:
  assumes key: "apiKey s \<noteq> []"
    and read: "toBase64 E f = ReadResolved data"
    and call: "fst (callGeminiAPI (fetch E) (ExtractionRequest (file_type f) data) (apiKey s)) = Inr jsonText"
    and parsed: "JSON_parse B (text_string jsonText) = Inr parsedJson"
  shows "((\<nexists>kvs items. parsedJson = JObj kvs \<and> get_prop kvs ''lineItems'' = JArr items) \<longrightarrow>
            invoiceData (fst (transcribeInvoice E B (Some f) s)) = None \<and>
            isLoading (fst (transcribeInvoice E B (Some f) s)) = False \<and>
            (\<exists>m. error (fst (transcribeInvoice E B (Some f) s)) =
                   Some (''Failed to transcribe invoice. '' @ m))) \<and>
         (\<forall>kvs. parsedJson = JObj kvs \<and> get_prop kvs ''lineItems'' = JArr [] \<longrightarrow>
            invoiceData (fst (transcribeInvoice E B (Some f) s)) =
              Some \<lparr>properties = filter (\<lambda>kv. fst kv \<noteq> ''lineItems'') kvs, lineItems = []\<rparr> \<and>
            isLoading (fst (transcribeInvoice E B (Some f) s)) = False \<and>
            error (fst (transcribeInvoice E B (Some f) s)) = None)"
proof -
  have run: "fst (transcribeInvoice E B (Some f) s) =
      transcribe_settle (add_categories parsedJson) (transcribe_begin f s)"
    using key extract_invoice_parsed [OF read call parsed] by (simp add: transcribeInvoice_run)
  have rejected: "invoiceData (fst (transcribeInvoice E B (Some f) s)) = None \<and>
      isLoading (fst (transcribeInvoice E B (Some f) s)) = False \<and>
      (\<exists>m. error (fst (transcribeInvoice E B (Some f) s)) = Some (''Failed to transcribe invoice. '' @ m))"
    if "\<nexists>kvs items. parsedJson = JObj kvs \<and> get_prop kvs ''lineItems'' = JArr items"
  proof -
    from that obtain m where "add_categories parsedJson = Inl (TypeError m)"
      using add_categories_Inl by blast
    with run show ?thesis
      by (simp add: transcribe_settle_Inl transcribe_begin_def)
  qed
  have installed: "invoiceData (fst (transcribeInvoice E B (Some f) s)) =
        Some \<lparr>properties = filter (\<lambda>kv. fst kv \<noteq> ''lineItems'') kvs, lineItems = []\<rparr> \<and>
      isLoading (fst (transcribeInvoice E B (Some f) s)) = False \<and>
      error (fst (transcribeInvoice E B (Some f) s)) = None"
    if "parsedJson = JObj kvs" and "get_prop kvs ''lineItems'' = JArr []" for kvs
  proof -
    from that have "add_categories parsedJson =
        Inr \<lparr>properties = filter (\<lambda>kv. fst kv \<noteq> ''lineItems'') kvs, lineItems = []\<rparr>"
      by (simp add: add_categories_def)
    with run show ?thesis
      by (simp add: transcribe_settle_Inr transcribe_begin_def)
  qed
  from rejected installed show ?thesis by blast
qed

lemma sample_missing_extraction:
  "fst (transcribeInvoice (browser (Some no_items_text)) sample_builtins (Some sample_file)
         (initial_state ''key'')) =
   (initial_state ''key'')\<lparr>error := Some ''Failed to transcribe invoice. Cannot read properties of undefined (reading 'map')'',
      fileName := ''invoice.png''\<rparr>"
  by code_simp

theorem extraction_without_lineItems_array_witness:
  "apiKey (initial_state ''key'') \<noteq> [] \<and>
   toBase64 (browser (Some no_items_text)) sample_file = ReadResolved ''aW52b2ljZQ=='' \<and>
   fst (callGeminiAPI (fetch (browser (Some no_items_text)))
          (ExtractionRequest (file_type sample_file) ''aW52b2ljZQ=='') (apiKey (initial_state ''key'')))
     = Inr (Some no_items_text) \<and>
   JSON_parse sample_builtins (text_string (Some no_items_text)) = Inr (JObj [(''invoiceNumber'', JStr ''INV-4'')]) \<and>
   invoiceData (fst (transcribeInvoice (browser (Some no_items_text)) sample_builtins
      (Some sample_file) (initial_state ''key''))) = None \<and>
   isLoading (fst (transcribeInvoice (browser (Some no_items_text)) sample_builtins
      (Some sample_file) (initial_state ''key''))) = False"
proof -
  have key: "apiKey (initial_state ''key'') \<noteq> []"
    by (simp add: initial_state_def)
  have read: "toBase64 (browser (Some no_items_text)) sample_file = ReadResolved ''aW52b2ljZQ==''"
    by (simp add: browser_def reading_def)
  have call: "fst (callGeminiAPI (fetch (browser (Some no_items_text)))
          (ExtractionRequest (file_type sample_file) ''aW52b2ljZQ=='') (apiKey (initial_state ''key'')))
     = Inr (Some no_items_text)"
    by (simp add: callGeminiAPI_def browser_def answering_def initial_state_def read_envelope_def
        first_part_def)
  have parsed: "JSON_parse sample_builtins (text_string (Some no_items_text)) =
      Inr (JObj [(''invoiceNumber'', JStr ''INV-4'')])"
    by code_simp
  have shape: "\<nexists>kvs items. JObj [(''invoiceNumber'', JStr ''INV-4'')] = (JObj kvs :: nat jsval) \<and>
      get_prop kvs ''lineItems'' = JArr items"
    by (simp add: get_prop_def)
  from extraction_without_lineItems_array [OF key read call parsed] shape
  have "invoiceData (fst (transcribeInvoice (browser (Some no_items_text)) sample_builtins
      (Some sample_file) (initial_state ''key''))) = None \<and>
   isLoading (fst (transcribeInvoice (browser (Some no_items_text)) sample_builtins
      (Some sample_file) (initial_state ''key''))) = False"
    by blast
  with key read call parsed show ?thesis by blast
qed

section \<open>The gateway\<close>







lemma callGeminiAPI_requests:
  "snd (callGeminiAPI net payload k) =
     (if k = [] then [] else [\<lparr>url = api_url k, body = payload\<rparr>])"
  by (simp add: callGeminiAPI_def Let_def)



section \<open>No API key\<close>

lemma callGeminiAPI_no_key: "callGeminiAPI net payload [] = (Inl ApiKeyMissing, [])"
  by (simp add: callGeminiAPI_def)

text \<open>
  Claim C3. With an empty API key no operation hands a request to \<^verbatim>\<open>fetch\<close>. The
  extraction returns at its guard, before the file is read: it makes no call at all, sets
  the error that asks for the key and opens the settings, and leaves the record, the busy
  flag and the loading message as they were. The other three operations, when they reach
  the gateway, end with the busy flag cleared and with the gateway's error
  \<^verbatim>\<open>API Key is missing\<close> behind their own prefix.
\<close>

theorem missing_api_key_makes_no_request:
  assumes none: "apiKey s = []"
  shows "transcribeInvoice E B (Some f) s =
           (s\<lparr>error := Some ''Please enter your Google AI API Key in Settings to proceed.'',
              isSettingsOpen := True\<rparr>, []) \<and>
         callGeminiAPI (fetch E) payload (apiKey s) = (Inl ApiKeyMissing, []) \<and>
         getCategorySuggestion E B itemDescription index s =
           (Rendered (s\<lparr>isLoading := False, loadingMessage := NoMessage,
              error := Some ''Failed to get category suggestion. API Key is missing. Please enter your Google AI API Key in Settings.''\<rparr>),
            []) \<and>
         snd (getAllCategorySuggestions E B s) = [] \<and>
         (invoiceData s \<noteq> None \<longrightarrow>
            fst (getAllCategorySuggestions E B s) =
              Rendered (s\<lparr>isLoading := False, loadingMessage := NoMessage,
                error := Some ''Failed to get all category suggestions. API Key is missing. Please enter your Google AI API Key in Settings.''\<rparr>)) \<and>
         snd (generateEmail E B emailType s) = [] \<and>
         (\<forall>d prompt. invoiceData s = Some d \<and> email_prompt B emailType d = Inr prompt \<longrightarrow>
            fst (generateEmail E B emailType s) =
              (email_begin emailType s)\<lparr>isLoading := False, loadingMessage := NoMessage,
                error := Some ''Failed to generate email. API Key is missing. Please enter your Google AI API Key in Settings.''\<rparr>)"
proof (intro conjI impI allI)
  show "transcribeInvoice E B (Some f) s =
      (s\<lparr>error := Some ''Please enter your Google AI API Key in Settings to proceed.'',
         isSettingsOpen := True\<rparr>, [])"
    using none by (simp add: transcribeInvoice_def)
  show "callGeminiAPI (fetch E) payload (apiKey s) = (Inl ApiKeyMissing, [])"
    using none by (simp add: callGeminiAPI_no_key)
  show "getCategorySuggestion E B itemDescription index s =
      (Rendered (s\<lparr>isLoading := False, loadingMessage := NoMessage,
         error := Some ''Failed to get category suggestion. API Key is missing. Please enter your Google AI API Key in Settings.''\<rparr>),
       [])"
    using none
    by (simp add: getCategorySuggestion_def callGeminiAPI_no_key suggestion_settle_def
        suggestion_begin_def finally_block_def)
  show "snd (getAllCategorySuggestions E B s) = []"
    using none
    by (simp add: getAllCategorySuggestions_def callGeminiAPI_no_key split: option.splits)
  show "fst (getAllCategorySuggestions E B s) =
      Rendered (s\<lparr>isLoading := False, loadingMessage := NoMessage,
        error := Some ''Failed to get all category suggestions. API Key is missing. Please enter your Google AI API Key in Settings.''\<rparr>)"
    if "invoiceData s \<noteq> None"
    using none that
    by (auto simp: getAllCategorySuggestions_def callGeminiAPI_no_key parse_categories_def
        batch_settle_def batch_begin_def finally_block_def)
  show "snd (generateEmail E B emailType s) = []"
    using none
    by (simp add: generateEmail_def callGeminiAPI_no_key split: option.splits sum.splits)
  show "fst (generateEmail E B emailType s) =
      (email_begin emailType s)\<lparr>isLoading := False, loadingMessage := NoMessage,
        error := Some ''Failed to generate email. API Key is missing. Please enter your Google AI API Key in Settings.''\<rparr>"
    if "invoiceData s = Some d \<and> email_prompt B emailType d = Inr prompt" for d prompt
    using none that
    by (simp add: generateEmail_def callGeminiAPI_no_key email_settle_def finally_block_def)
qed

theorem missing_api_key_makes_no_request_witness:
  "apiKey (widget_state []) = [] \<and>
   transcribeInvoice (browser (Some invoice_text)) sample_builtins (Some sample_file) (widget_state []) =
     ((widget_state [])\<lparr>error := Some ''Please enter your Google AI API Key in Settings to proceed.'',
        isSettingsOpen := True\<rparr>, []) \<and>
   snd (getCategorySuggestion (browser (Some ''Travel'')) sample_builtins (JStr ''Widget'') 0
          (widget_state [])) = [] \<and>
   snd (getAllCategorySuggestions (browser (Some ''null'')) sample_builtins (widget_state [])) = [] \<and>
   snd (generateEmail (browser (Some ''Dear'')) sample_builtins ''Vendor Query'' (widget_state [])) = []"
proof -
  have none: "apiKey (widget_state []) = []"
    by (simp add: widget_state_def initial_state_def)
  from missing_api_key_makes_no_request [OF none] show ?thesis
    using none by simp
qed

section \<open>Single suggestion\<close>

lemma trim_split:
  "dropWhile is_space s = trim s @ rev (takeWhile is_space (rev (dropWhile is_space s)))"
proof -
  let ?t = "dropWhile is_space s"
  have "rev (takeWhile is_space (rev ?t) @ dropWhile is_space (rev ?t)) = rev (rev ?t)"
    by (simp only: takeWhile_dropWhile_id)
  then have "rev (dropWhile is_space (rev ?t)) @ rev (takeWhile is_space (rev ?t)) = ?t"
    by (simp only: rev_append rev_rev_ident)
  then show ?thesis
    by (simp only: trim_def)
qed

lemma trim_inside:
  "\<exists>before after. s = before @ trim s @ after \<and>
     list_all is_space before \<and> list_all is_space after"
proof (intro exI conjI)
  have "s = takeWhile is_space s @ dropWhile is_space s"
    by simp
  also have "dropWhile is_space s =
      trim s @ rev (takeWhile is_space (rev (dropWhile is_space s)))"
    by (rule trim_split)
  finally show "s = takeWhile is_space s @ trim s @
      rev (takeWhile is_space (rev (dropWhile is_space s)))" .
  show "list_all is_space (takeWhile is_space s)"
    by (auto simp: list_all_iff dest: set_takeWhileD)
  show "list_all is_space (rev (takeWhile is_space (rev (dropWhile is_space s))))"
    by (auto simp: list_all_iff dest: set_takeWhileD)
qed


lemma trim_ends:
  assumes "trim s \<noteq> []"
  shows "\<not> is_space (hd (trim s)) \<and> \<not> is_space (last (trim s))"
proof
  let ?t = "dropWhile is_space s"
  let ?u = "dropWhile is_space (rev ?t)"
  from assms have u: "?u \<noteq> []"
    by (simp only: trim_def rev_is_Nil_conv not_False_eq_True)
  then have "\<not> is_space (hd ?u)"
    by (rule hd_dropWhile)
  moreover have "last (rev ?u) = hd ?u"
    by (rule last_rev)
  ultimately show "\<not> is_space (last (trim s))"
    by (simp add: trim_def)
  have t: "?t \<noteq> []"
  proof
    assume empty: "?t = []"
    have "?u = dropWhile is_space (rev [])"
      by (simp only: empty)
    then have "?u = []"
      by (simp only: rev.simps dropWhile.simps)
    with u show False
      by (rule notE)
  qed
  then have "\<not> is_space (hd ?t)"
    by (rule hd_dropWhile)
  moreover have "hd ?t = hd (trim s)"
  proof -
    have "hd ?t = hd (trim s @ rev (takeWhile is_space (rev ?t)))"
      using trim_split [of s] by (rule arg_cong)
    also have "\<dots> = hd (trim s)"
      using assms by (rule hd_append2)
    finally show ?thesis .
  qed
  ultimately show "\<not> is_space (hd (trim s))"
    by simp
qed

lemma suggestion_updater_merges:
  assumes "index < length (lineItems d)"
  shows "suggestion_updater index (Some category) (Some d) =
           Inr (d\<lparr>lineItems := (lineItems d)
                  [index := set_prop ''category'' (JStr (trim category)) (lineItems d ! index)]\<rparr>)"
  using assms by (simp add: suggestion_updater_def)

lemma suggestion_settle_merges:
  assumes "invoiceData s = Some d" and "index < length (lineItems d)"
  shows "suggestion_settle index (Inr (Some category)) s =
           Rendered (s\<lparr>invoiceData := Some (d\<lparr>lineItems := (lineItems d)
                  [index := set_prop ''category'' (JStr (trim category)) (lineItems d ! index)]\<rparr>),
               isLoading := False, loadingMessage := NoMessage\<rparr>)"
  using assms by (simp add: suggestion_settle_def suggestion_updater_merges finally_block_def)

lemma getCategorySuggestion_run:
  "getCategorySuggestion E B itemDescription index s =
     (suggestion_settle index
        (fst (callGeminiAPI (fetch E)
                (TextRequest (Some (suggestion_prompt (js_toString B itemDescription)))) (apiKey s)))
        (suggestion_begin B itemDescription s),
      map Requested
        (snd (callGeminiAPI (fetch E)
                (TextRequest (Some (suggestion_prompt (js_toString B itemDescription)))) (apiKey s))))"
  by (simp add: getCategorySuggestion_def split: prod.splits)

text \<open>
  Claim C5. A single suggestion is successful when the gateway returns a text and the
  record has a line item at the index. The operation then ends in a state whose record has
  the trimmed text as the category of that item; the record has as many line items as
  before, every item at another index is the same, every property of the item at the index
  other than \<^verbatim>\<open>category\<close> is the same, and so are the properties of the record itself.
  The busy flag is cleared and no error is set.
\<close>

theorem suggestion_writes_only_its_index:
  assumes present: "invoiceData s = Some d"
    and index: "index < length (lineItems d)"
    and returned: "fst (callGeminiAPI (fetch E)
        (TextRequest (Some (suggestion_prompt (js_toString B itemDescription)))) (apiKey s)) =
          Inr (Some category)"
  shows "\<exists>s' d'.
           fst (getCategorySuggestion E B itemDescription index s) = Rendered s' \<and>
           invoiceData s' = Some d' \<and>
           get_prop (lineItems d' ! index) ''category'' = JStr (trim category) \<and>
           length (lineItems d') = length (lineItems d) \<and>
           (\<forall>j < length (lineItems d). j \<noteq> index \<longrightarrow> lineItems d' ! j = lineItems d ! j) \<and>
           (\<forall>k. k \<noteq> ''category'' \<longrightarrow>
              get_prop (lineItems d' ! index) k = get_prop (lineItems d ! index) k) \<and>
           properties d' = properties d \<and>
           isLoading s' = False \<and> error s' = None"
proof -
  let ?s1 = "suggestion_begin B itemDescription s"
  let ?d' = "d\<lparr>lineItems := (lineItems d)
      [index := set_prop ''category'' (JStr (trim category)) (lineItems d ! index)]\<rparr>"
  let ?s' = "?s1\<lparr>invoiceData := Some ?d', isLoading := False, loadingMessage := NoMessage\<rparr>"
  have begun: "invoiceData ?s1 = Some d"
    using present by (simp add: suggestion_begin_def)
  have "fst (getCategorySuggestion E B itemDescription index s) = Rendered ?s'"
    using returned suggestion_settle_merges [OF begun index]
    by (simp add: getCategorySuggestion_run)
  moreover have "get_prop (lineItems ?d' ! index) ''category'' = JStr (trim category)"
    using index by (simp add: get_prop_set_prop_same)
  moreover have "\<forall>k. k \<noteq> ''category'' \<longrightarrow>
      get_prop (lineItems ?d' ! index) k = get_prop (lineItems d ! index) k"
    using index by (simp add: get_prop_set_prop_other)
  moreover have "error ?s' = None"
    by (simp add: suggestion_begin_def)
  ultimately show ?thesis
    by (intro exI [of _ ?s'] exI [of _ ?d']) simp
qed

lemma sample_trim: "trim '' Travel\<newline>'' = ''Travel''"
  by code_simp

theorem suggestion_writes_only_its_index_witness:
  "invoiceData (widget_state ''key'') = Some widget_invoice \<and>
   0 < length (lineItems widget_invoice) \<and>
   fst (callGeminiAPI (fetch (browser (Some '' Travel\<newline>'')))
      (TextRequest (Some (suggestion_prompt (js_toString sample_builtins (JStr ''Widget'')))))
      (apiKey (widget_state ''key''))) = Inr (Some '' Travel\<newline>'') \<and>
   fst (getCategorySuggestion (browser (Some '' Travel\<newline>'')) sample_builtins (JStr ''Widget'') 0
          (widget_state ''key'')) =
     Rendered ((widget_state ''key'')\<lparr>invoiceData := Some (widget_invoice\<lparr>lineItems :=
       [[(''description'', JStr ''Widget''), (''quantity'', JNum 2), (''unitPrice'', JNum 5),
         (''total'', JNum 10), (''category'', JStr ''Travel'')]]\<rparr>)\<rparr>)"
proof -
  have present: "invoiceData (widget_state ''key'') = Some widget_invoice"
    by (simp add: widget_state_def)
  have index: "0 < length (lineItems widget_invoice)"
    by (simp add: widget_invoice_def)
  have returned: "fst (callGeminiAPI (fetch (browser (Some '' Travel\<newline>'')))
      (TextRequest (Some (suggestion_prompt (js_toString sample_builtins (JStr ''Widget'')))))
      (apiKey (widget_state ''key''))) = Inr (Some '' Travel\<newline>'')"
    by (simp add: callGeminiAPI_def browser_def answering_def read_envelope_def first_part_def
        widget_state_def initial_state_def)
  have run: "fst (getCategorySuggestion (browser (Some '' Travel\<newline>'')) sample_builtins (JStr ''Widget'') 0
          (widget_state ''key'')) =
     Rendered ((widget_state ''key'')\<lparr>invoiceData := Some (widget_invoice\<lparr>lineItems :=
       [[(''description'', JStr ''Widget''), (''quantity'', JNum 2), (''unitPrice'', JNum 5),
         (''total'', JNum 10), (''category'', JStr ''Travel'')]]\<rparr>)\<rparr>)"
    unfolding getCategorySuggestion_run
    by (simp add: callGeminiAPI_def browser_def answering_def read_envelope_def first_part_def
        widget_state_def initial_state_def suggestion_settle_def suggestion_updater_def
        suggestion_begin_def finally_block_def widget_invoice_def trim_def is_space_def)
  from suggestion_writes_only_its_index [OF present index returned]
  have "\<exists>s'. fst (getCategorySuggestion (browser (Some '' Travel\<newline>'')) sample_builtins
      (JStr ''Widget'') 0 (widget_state ''key'')) = Rendered s'"
    by blast
  with present index returned run show ?thesis
    by simp
qed

section \<open>A suggestion that settles on another record\<close>

lemma sample_replaced_session:
  "replaced_session = (widget_state ''key'')\<lparr>invoiceData := Some gadget_invoice\<rparr>"
  unfolding replaced_session_def
  by (simp add: transcribeInvoice_def upload_new_def suggestion_begin_def widget_state_def
      initial_state_def sample_file_def extract_invoice_def browser_def reading_def
      callGeminiAPI_def answering_def read_envelope_def first_part_def parse_invoice_def
      text_string_def sample_builtins_def sample_parse_def invoice_text_def two_items_text_def
      add_categories_def get_prop_def with_category_def transcribe_settle_def
      transcribe_begin_def finally_block_def gadget_invoice_def)

text \<open>
  Claim C6, as stated, fails: the source keeps nothing that tells one record from another,
  and the function of lines 692-696 is applied to whatever record is current. In
  \<open>replaced_session\<close> the suggestion that was asked for the first item of the first
  invoice writes its text into the first item of the second invoice.
\<close>

theorem stale_suggestion_patches_new_record:
  "invoiceData replaced_session = Some gadget_invoice \<and>
   suggestion_settle 0 (Inr (Some ''Travel'')) replaced_session =
     Rendered (replaced_session\<lparr>invoiceData := Some (gadget_invoice\<lparr>lineItems :=
       [[(''description'', JStr ''Gadget''), (''quantity'', JNum 1), (''unitPrice'', JNum 7),
         (''total'', JNum 7), (''category'', JStr ''Travel'')],
        [(''description'', JStr ''Gizmo''), (''quantity'', JNum 1), (''unitPrice'', JNum 3),
         (''total'', JNum 3), (''category'', JStr [])]]\<rparr>)\<rparr>)"
  unfolding sample_replaced_session
  by (simp add: suggestion_settle_def suggestion_updater_def finally_block_def widget_state_def
      initial_state_def gadget_invoice_def trim_def is_space_def)

text \<open>
  Claim C6, amended. A single suggestion is merged into the record that is current when it
  settles, whichever record it was asked for: when that record has a line item at the
  index, the operation ends in a state whose record is the current one with the trimmed
  text as the category of that item, and nothing else changed in it.
\<close>

theorem suggestion_merges_into_current_record:
  assumes present: "invoiceData current = Some d"
    and index: "index < length (lineItems d)"
  shows "\<exists>s' d'.
           suggestion_settle index (Inr (Some category)) current = Rendered s' \<and>
           invoiceData s' = Some d' \<and>
           lineItems d' =
             (lineItems d)[index := set_prop ''category'' (JStr (trim category)) (lineItems d ! index)] \<and>
           get_prop (lineItems d' ! index) ''category'' = JStr (trim category) \<and>
           properties d' = properties d"
proof -
  let ?d' = "d\<lparr>lineItems := (lineItems d)
      [index := set_prop ''category'' (JStr (trim category)) (lineItems d ! index)]\<rparr>"
  let ?s' = "current\<lparr>invoiceData := Some ?d', isLoading := False, loadingMessage := NoMessage\<rparr>"
  have "suggestion_settle index (Inr (Some category)) current = Rendered ?s'"
    using present index by (rule suggestion_settle_merges)
  moreover have "get_prop (lineItems ?d' ! index) ''category'' = JStr (trim category)"
    using index by (simp add: get_prop_set_prop_same)
  ultimately show ?thesis
    by (intro exI [of _ ?s'] exI [of _ ?d']) simp
qed

theorem suggestion_merges_into_current_record_witness:
  "invoiceData replaced_session = Some gadget_invoice \<and>
   0 < length (lineItems gadget_invoice) \<and>
   (\<exists>s' d'. suggestion_settle 0 (Inr (Some ''Travel'')) replaced_session = Rendered s' \<and>
      invoiceData s' = Some d' \<and>
      get_prop (lineItems d' ! 0) ''category'' = JStr ''Travel'' \<and>
      properties d' = properties gadget_invoice)"
proof -
  have present: "invoiceData replaced_session = Some gadget_invoice"
    by (simp add: sample_replaced_session)
  have index: "0 < length (lineItems gadget_invoice)"
    by (simp add: gadget_invoice_def)
  have trimmed: "trim ''Travel'' = ''Travel''"
    by (simp add: trim_def is_space_def)
  from suggestion_merges_into_current_record [OF present index, of "''Travel''"]
  have "\<exists>s' d'. suggestion_settle 0 (Inr (Some ''Travel'')) replaced_session = Rendered s' \<and>
      invoiceData s' = Some d' \<and>
      get_prop (lineItems d' ! 0) ''category'' = JStr ''Travel'' \<and>
      properties d' = properties gadget_invoice"
    unfolding trimmed by blast
  with present index show ?thesis
    by (intro conjI)
qed

section \<open>Batch suggestion\<close>








section \<open>Email drafts\<close>

lemma email_settle_Inl:
  "email_settle (Inl e) s =
     s\<lparr>error := Some (''Failed to generate email. '' @ message e), isLoading := False,
       loadingMessage := NoMessage\<rparr>"
  by (simp add: email_settle_def finally_block_def)

lemma email_settle_Inr:
  "email_settle (Inr emailContent) s =
     s\<lparr>modalContent := emailContent, isLoading := False, loadingMessage := NoMessage\<rparr>"
  by (simp add: email_settle_def finally_block_def)

lemma email_prompt_without_total:
  assumes "v = JUndefined \<or> v = JNull"
    and "get_prop (properties d) ''total'' = v"
    and "emailType = ''Payment Approval'' \<or> emailType = ''Vendor Query''"
  shows "\<exists>m. email_prompt B emailType d = Inl (TypeError m)"
  using assms
  by (auto simp: email_prompt_def approval_prompt_def query_prompt_def total_toFixed2_def)

text \<open>
  Claim C10. When the \<^verbatim>\<open>total\<close> of the record is \<^verbatim>\<open>undefined\<close> or \<^verbatim>\<open>null\<close>,
  \<open>generateEmail\<close> with either of the two types makes no call to the gateway and ends
  with the modal content and the record as they were, the busy flag cleared and the error
  set to \<^verbatim>\<open>Failed to generate email. \<close> followed by the message of the TypeError that the
  template raised (the title of the modal was set before).
\<close>

theorem email_without_total_is_caught:
  assumes present: "invoiceData s = Some d"
    and absent: "get_prop (properties d) ''total'' = JUndefined \<or>
                 get_prop (properties d) ''total'' = JNull"
    and intent: "emailType = ''Payment Approval'' \<or> emailType = ''Vendor Query''"
  shows "snd (generateEmail E B emailType s) = [] \<and>
         modalContent (fst (generateEmail E B emailType s)) = modalContent s \<and>
         invoiceData (fst (generateEmail E B emailType s)) = invoiceData s \<and>
         isLoading (fst (generateEmail E B emailType s)) = False \<and>
         (\<exists>m. error (fst (generateEmail E B emailType s)) =
                Some (''Failed to generate email. '' @ m))"
proof -
  obtain m where "email_prompt B emailType d = Inl (TypeError m)"
    using email_prompt_without_total [OF absent refl intent] by blast
  with present have "generateEmail E B emailType s =
      (email_settle (Inl (TypeError m)) (email_begin emailType s), [])"
    by (simp add: generateEmail_def)
  then show ?thesis
    by (simp add: email_settle_Inl email_begin_def Let_def)
qed

theorem email_without_total_is_caught_witness:
  "invoiceData ((initial_state ''key'')\<lparr>invoiceData := Some no_total_invoice\<rparr>) = Some no_total_invoice \<and>
   get_prop (properties no_total_invoice) ''total'' = JNull \<and>
   generateEmail (browser (Some ''Dear vendor'')) sample_builtins ''Vendor Query''
       ((initial_state ''key'')\<lparr>invoiceData := Some no_total_invoice\<rparr>) =
     ((initial_state ''key'')\<lparr>invoiceData := Some no_total_invoice,
        modalTitle := ''Draft: Query to Vendor'',
        error := Some ''Failed to generate email. Cannot read properties of null (reading 'toFixed')''\<rparr>,
      [])"
proof -
  have present: "invoiceData ((initial_state ''key'')\<lparr>invoiceData := Some no_total_invoice\<rparr>) =
      Some no_total_invoice"
    by simp
  have null: "get_prop (properties no_total_invoice) ''total'' = JNull"
    by (simp add: no_total_invoice_def get_prop_def)
  then have absent: "get_prop (properties no_total_invoice) ''total'' = JUndefined \<or>
      get_prop (properties no_total_invoice) ''total'' = JNull"
    by simp
  have intent: "''Vendor Query'' = ''Payment Approval'' \<or> ''Vendor Query'' = ''Vendor Query''"
    by simp
  have run: "generateEmail (browser (Some ''Dear vendor'')) sample_builtins ''Vendor Query''
       ((initial_state ''key'')\<lparr>invoiceData := Some no_total_invoice\<rparr>) =
     ((initial_state ''key'')\<lparr>invoiceData := Some no_total_invoice,
        modalTitle := ''Draft: Query to Vendor'',
        error := Some ''Failed to generate email. Cannot read properties of null (reading 'toFixed')''\<rparr>,
      [])"
    using null
    by (simp add: generateEmail_def email_prompt_def query_prompt_def total_toFixed2_def
        email_settle_Inl email_begin_def initial_state_def)
  from email_without_total_is_caught [OF present absent intent]
  have "snd (generateEmail (browser (Some ''Dear vendor'')) sample_builtins ''Vendor Query''
       ((initial_state ''key'')\<lparr>invoiceData := Some no_total_invoice\<rparr>)) = []"
    by blast
  with present null run show ?thesis
    by simp
qed

end
